theory Spec2Isabelle
  imports Main
begin

section \<open>Configuration values, formatted messages and exceptions\<close>

text \<open>
  The configuration tree holds untyped values. The fragment of Python's value universe
  that the wiring code inspects is: \<open>None\<close>, booleans, integers, strings, lists and
  string-keyed dictionaries (in declaration order).
\<close>

datatype pyval =
    VNone
  | VBool bool
  | VInt int
  | VStr string
  | VList "pyval list"
  | VDict "(string \<times> pyval) list"

text \<open>
  An f-string is kept as the sequence of its pieces: literal text, a value formatted with
  \<open>{v}\<close>, and a value formatted with \<open>{v=}\<close> (its \<open>repr\<close>, after the literal
  \<open>v=\<close>).
\<close>

datatype part = Lit string | Fmt pyval | Repr pyval

type_synonym message = "part list"

text \<open>
  The exceptions the code can raise. \<open>Raised\<close> stands for an exception thrown inside a
  foreign constructor, identified by a label.
\<close>

datatype error =
    ValueError message
  | ZeroDivisionError
  | TypeError
  | AssertionError
  | AttributeError string
  | KeyError pyval
  | Raised string

text \<open>\<open>isinstance(v, int)\<close>: integers and booleans (\<open>bool\<close> is a subclass of \<open>int\<close>).\<close>

fun int_of :: "pyval \<Rightarrow> int option" where
  "int_of (VInt i) = Some i"
| "int_of (VBool b) = Some (if b then 1 else 0)"
| "int_of _ = None"

text \<open>Integer \<open>%\<close> and \<open>//\<close> round towards minus infinity, as HOL's do, and raise on zero.\<close>

definition py_mod :: "int \<Rightarrow> int \<Rightarrow> error + int" where
  "py_mod a b = (if b = 0 then Inl ZeroDivisionError else Inr (a mod b))"

definition py_floordiv :: "int \<Rightarrow> int \<Rightarrow> error + int" where
  "py_floordiv a b = (if b = 0 then Inl ZeroDivisionError else Inr (a div b))"

section \<open>Batch-size partitioning\<close>

text \<open>
  \<open>calculate_batch_size_info(global_batch_size, device_microbatch_size)\<close>. The world
  size that \<open>dist.get_world_size()\<close> reports is the first argument. The result pairs
  the returned triple (or the exception) with the lines printed on the way.
\<close>

definition not_divisible_msg :: "int \<Rightarrow> int \<Rightarrow> message" where
  "not_divisible_msg global_batch_size world_size =
     [Lit ''Global batch size '', Fmt (VInt global_batch_size),
      Lit '' is not divisible by '', Fmt (VInt world_size), Lit '' '',
      Lit ''as a result, the batch size would be truncated, please adjust `global_batch_size` '',
      Lit ''to be divisible by world size, '', Fmt (VInt world_size), Lit ''.'']"

definition cannot_parse_msg :: "pyval \<Rightarrow> message" where
  "cannot_parse_msg device_microbatch_size =
     [Lit ''Not sure how to parse '', Lit ''device_microbatch_size='', Repr device_microbatch_size]"

definition clamp_warning :: "pyval \<Rightarrow> int \<Rightarrow> message" where
  "clamp_warning device_microbatch_size device_batch_size =
     [Lit ''WARNING: device_microbatch_size > device_batch_size, '',
      Lit ''will be reduced from '', Fmt device_microbatch_size, Lit '' -> '',
      Fmt (VInt device_batch_size), Lit ''.'']"

type_synonym batch_info = "int \<times> pyval \<times> pyval"

definition calculate_batch_size_info ::
  "int \<Rightarrow> int \<Rightarrow> pyval \<Rightarrow> (error + batch_info) \<times> message list" where
  "calculate_batch_size_info world_size global_batch_size device_microbatch_size =
     (case py_mod global_batch_size world_size of
        Inl e \<Rightarrow> (Inl e, [])
      | Inr r \<Rightarrow>
          if r \<noteq> 0 then (Inl (ValueError (not_divisible_msg global_batch_size world_size)), [])
          else
            let device_batch_size = global_batch_size div world_size in
            if device_microbatch_size = VStr ''auto''
            then (Inr (device_batch_size, device_microbatch_size, VStr ''auto''), [])
            else
              (case int_of device_microbatch_size of
                 None \<Rightarrow> (Inl (ValueError (cannot_parse_msg device_microbatch_size)), [])
               | Some m \<Rightarrow>
                   let reduce = (m > device_batch_size);
                       printed = (if reduce
                                  then [clamp_warning device_microbatch_size device_batch_size]
                                  else []);
                       device_microbatch_size' = (if reduce then VInt device_batch_size
                                                  else device_microbatch_size);
                       m' = (if reduce then device_batch_size else m)
                   in (case py_floordiv device_batch_size m' of
                         Inl e \<Rightarrow> (Inl e, printed)
                       | Inr device_grad_accum \<Rightarrow>
                           (Inr (device_batch_size, device_microbatch_size',
                                 VInt device_grad_accum), printed))))"

section \<open>The orchestrator's batch-size update\<close>

text \<open>
  The run configuration is a dictionary with attribute-style reads; reading an absent key
  raises. \<open>update_batch_size_info(cfg)\<close> stores the partition into the configuration
  and fills in \<open>device_eval_batch_size\<close> when the key is not there (lines 119 to 124,
  \<open>set_eval_batch_size\<close> below). The model covers integer global batch sizes: on any
  other value Python's \<open>%\<close> is not integer arithmetic, and the model ends with a
  \<open>TypeError\<close>.
\<close>

type_synonym config = "string \<rightharpoonup> pyval"

definition getattr :: "config \<Rightarrow> string \<Rightarrow> error + pyval" where
  "getattr cfg key = (case cfg key of None \<Rightarrow> Inl (AttributeError key) | Some v \<Rightarrow> Inr v)"

definition set_eval_batch_size :: "config \<Rightarrow> error + config" where
  "set_eval_batch_size cfg =
     (if cfg ''device_eval_batch_size'' = None then
        (case getattr cfg ''device_train_microbatch_size'' of
           Inl e \<Rightarrow> Inl e
         | Inr v \<Rightarrow>
             if v = VStr ''auto'' then Inr (cfg(''device_eval_batch_size'' \<mapsto> VInt 1))
             else Inr (cfg(''device_eval_batch_size'' \<mapsto> v)))
      else Inr cfg)"

definition update_batch_size_info :: "int \<Rightarrow> config \<Rightarrow> (error + config) \<times> message list" where
  "update_batch_size_info world_size cfg =
     (case getattr cfg ''global_train_batch_size'' of
        Inl e \<Rightarrow> (Inl e, [])
      | Inr gv \<Rightarrow>
          (case getattr cfg ''device_train_microbatch_size'' of
             Inl e \<Rightarrow> (Inl e, [])
           | Inr mv \<Rightarrow>
               (case int_of gv of
                  None \<Rightarrow> (Inl TypeError, [])
                | Some global_train_batch_size \<Rightarrow>
                    (case calculate_batch_size_info world_size global_train_batch_size mv of
                       (Inl e, printed) \<Rightarrow> (Inl e, printed)
                     | (Inr (device_train_batch_size, device_train_microbatch_size,
                             device_train_grad_accum), printed) \<Rightarrow>
                         (set_eval_batch_size
                            (cfg(''n_gpus'' \<mapsto> VInt world_size,
                                 ''device_train_batch_size'' \<mapsto> VInt device_train_batch_size,
                                 ''device_train_microbatch_size'' \<mapsto> device_train_microbatch_size,
                                 ''device_train_grad_accum'' \<mapsto> device_train_grad_accum)),
                          printed)))))"

section \<open>Component builders\<close>

text \<open>
  The builders call constructors of foreign libraries. A call is the callee's name, its
  positional arguments and its keyword arguments; \<open>ext\<close> is the foreign code, which
  returns an object or raises. Every builder returns its outcome together with the calls
  it made, in order.
\<close>

datatype 'o arg = Obj 'o | Val pyval

type_synonym 'o call = "string \<times> 'o arg list \<times> (string \<times> pyval) list"

type_synonym ('o, 'a) run = "(error + 'a) \<times> 'o call list"

definition invoke :: "('o call \<Rightarrow> error + 'o) \<Rightarrow> 'o call \<Rightarrow> ('o, 'o) run" where
  "invoke ext c = (ext c, [c])"

definition raise_err :: "error \<Rightarrow> ('o, 'a) run" where
  "raise_err e = (Inl e, [])"

definition lift :: "error + 'a \<Rightarrow> ('o, 'a) run" where
  "lift r = (r, [])"

definition and_then :: "('o, 'a) run \<Rightarrow> ('a \<Rightarrow> ('o, 'b) run) \<Rightarrow> ('o, 'b) run" where
  "and_then m f =
     (case m of
        (Inl e, calls) \<Rightarrow> (Inl e, calls)
      | (Inr a, calls) \<Rightarrow> (case f a of (r, calls') \<Rightarrow> (r, calls @ calls')))"

text \<open>A configuration fragment is a dictionary in declaration order.\<close>

type_synonym fragment = "(string \<times> pyval) list"

definition attr :: "fragment \<Rightarrow> string \<Rightarrow> error + pyval" where
  "attr cfg key = (case map_of cfg key of None \<Rightarrow> Inl (AttributeError key) | Some v \<Rightarrow> Inr v)"

definition dict_get :: "fragment \<Rightarrow> string \<Rightarrow> pyval \<Rightarrow> pyval" where
  "dict_get d key dflt = (case map_of d key of None \<Rightarrow> dflt | Some v \<Rightarrow> v)"

definition build_logger :: "('o call \<Rightarrow> error + 'o) \<Rightarrow> string \<Rightarrow> fragment \<Rightarrow> ('o, 'o) run" where
  "build_logger ext name kwargs =
     (if name = ''wandb'' then invoke ext (''WandBLogger'', [], kwargs)
      else raise_err (ValueError [Lit ''Not sure how to build logger: '', Fmt (VStr name)]))"

definition build_callback :: "('o call \<Rightarrow> error + 'o) \<Rightarrow> string \<Rightarrow> fragment \<Rightarrow> ('o, 'o) run" where
  "build_callback ext name kwargs =
     (if name = ''lr_monitor'' then invoke ext (''LRMonitor'', [], [])
      else if name = ''memory_monitor'' then invoke ext (''MemoryMonitor'', [], [])
      else if name = ''speed_monitor'' then
        invoke ext (''SpeedMonitor'', [], [(''window_size'', dict_get kwargs ''window_size'' (VInt 1))])
      else if name = ''optimizer_monitor'' then
        invoke ext (''OptimizerMonitor'', [],
                    [(''log_optimizer_metrics'', dict_get kwargs ''log_optimizer_metrics'' VNone)])
      else raise_err (ValueError [Lit ''Not sure how to build callback: '', Fmt (VStr name)]))"

definition build_algorithm :: "('o call \<Rightarrow> error + 'o) \<Rightarrow> string \<Rightarrow> fragment \<Rightarrow> ('o, 'o) run" where
  "build_algorithm ext name kwargs =
     (if name = ''gradient_clipping'' then invoke ext (''GradientClipping'', [], kwargs)
      else raise_err (ValueError [Lit ''Not sure how to build algorithm: '', Fmt (VStr name)]))"

definition build_optimizer :: "('o call \<Rightarrow> error + 'o) \<Rightarrow> fragment \<Rightarrow> 'o \<Rightarrow> ('o, 'o) run" where
  "build_optimizer ext cfg model =
     and_then (lift (attr cfg ''name'')) (\<lambda>name.
       if name = VStr ''decoupled_adamw'' then
         and_then (invoke ext (''parameters'', [Obj model], [])) (\<lambda>params.
         and_then (lift (attr cfg ''lr'')) (\<lambda>lr.
         and_then (lift (attr cfg ''betas'')) (\<lambda>betas.
         and_then (lift (attr cfg ''eps'')) (\<lambda>eps.
         and_then (lift (attr cfg ''weight_decay'')) (\<lambda>weight_decay.
           invoke ext (''DecoupledAdamW'', [Obj params],
                       [(''lr'', lr), (''betas'', betas), (''eps'', eps),
                        (''weight_decay'', weight_decay)]))))))
       else raise_err (ValueError [Lit ''Not sure how to build optimizer: '', Fmt name]))"

definition build_scheduler :: "('o call \<Rightarrow> error + 'o) \<Rightarrow> fragment \<Rightarrow> ('o, 'o) run" where
  "build_scheduler ext cfg =
     and_then (lift (attr cfg ''name'')) (\<lambda>name.
       if name = VStr ''constant_with_warmup'' then
         and_then (lift (attr cfg ''t_warmup'')) (\<lambda>t_warmup.
           invoke ext (''ConstantWithWarmupScheduler'', [], [(''t_warmup'', t_warmup)]))
       else if name = VStr ''cosine_with_warmup'' then
         and_then (lift (attr cfg ''t_warmup'')) (\<lambda>t_warmup.
         and_then (lift (attr cfg ''alpha_f'')) (\<lambda>alpha_f.
           invoke ext (''CosineAnnealingWithWarmupScheduler'', [],
                       [(''t_warmup'', t_warmup), (''alpha_f'', alpha_f)])))
       else raise_err (ValueError [Lit ''Not sure how to build scheduler: '', Fmt name]))"

text \<open>
  \<open>build_composer_model\<close> and \<open>build_dataloader\<close> wrap their body in a bare
  \<open>try ... except:\<close>, so whatever the body raises is replaced by the handler's
  \<open>ValueError\<close>; the handler's own read of \<open>cfg.name\<close> can raise in turn. The calls
  made before the exception stay made. A registry is a dictionary from names to callees.
\<close>

type_synonym registry = "pyval \<rightharpoonup> string"

definition subscript :: "registry \<Rightarrow> pyval \<Rightarrow> error + string" where
  "subscript reg key = (case reg key of None \<Rightarrow> Inl (KeyError key) | Some callee \<Rightarrow> Inr callee)"

definition except_all :: "('o, 'a) run \<Rightarrow> ('o, 'a) run \<Rightarrow> ('o, 'a) run" where
  "except_all body handler =
     (case body of
        (Inr a, calls) \<Rightarrow> (Inr a, calls)
      | (Inl e, calls) \<Rightarrow> (case handler of (r, calls') \<Rightarrow> (r, calls @ calls')))"

definition build_composer_model ::
  "registry \<Rightarrow> ('o call \<Rightarrow> error + 'o) \<Rightarrow> fragment \<Rightarrow> ('o, 'o) run" where
  "build_composer_model COMPOSER_MODEL_REGISTRY ext cfg =
     except_all
       (and_then (lift (attr cfg ''name'')) (\<lambda>name.
        and_then (lift (subscript COMPOSER_MODEL_REGISTRY name)) (\<lambda>callee.
          invoke ext (callee, [Val (VDict cfg)], []))))
       (and_then (lift (attr cfg ''name'')) (\<lambda>name.
          raise_err (ValueError [Lit ''Not sure how to build model with name='', Fmt name])))"

definition build_dataloader ::
  "('o call \<Rightarrow> error + 'o) \<Rightarrow> fragment \<Rightarrow> pyval \<Rightarrow> ('o, 'o) run" where
  "build_dataloader ext cfg device_batch_size =
     except_all
       (invoke ext (''build_text_dataloader'', [Val (VDict cfg), Val device_batch_size], []))
       (raise_err (ValueError [Lit ''Not sure how to build dataloader with config: '',
                               Fmt (VDict cfg)]))"

text \<open>
  The tokenizer is resolved inside \<open>main\<close>:
  \<open>TOKENIZER_REGISTRY[cfg.tokenizer.type](**cfg.tokenizer.args)\<close>, with no handler.
\<close>

definition main_tokenizer ::
  "registry \<Rightarrow> ('o call \<Rightarrow> error + 'o) \<Rightarrow> fragment \<Rightarrow> ('o, 'o) run" where
  "main_tokenizer TOKENIZER_REGISTRY ext tokenizer_cfg =
     and_then (lift (attr tokenizer_cfg ''type'')) (\<lambda>type.
     and_then (lift (subscript TOKENIZER_REGISTRY type)) (\<lambda>callee.
     and_then (lift (attr tokenizer_cfg ''args'')) (\<lambda>args.
       case args of
         VDict kwargs \<Rightarrow> invoke ext (callee, [], kwargs)
       | _ \<Rightarrow> raise_err TypeError)))"

section \<open>Evaluator assembly\<close>

text \<open>
  \<open>get_evaluators(cfg, tokenizer, batch_size, seqlen)\<close>: one \<open>Evaluator\<close> per task, in
  order. The data source comes from the foreign \<open>get_lm_task_dataloader\<close>, which
  returns a handle or raises; the calls made to it are returned with the outcome.
\<close>

text \<open>Truth value of a Python object, as \<open>assert\<close> and \<open>and\<close> test it.\<close>

fun truthy :: "pyval \<Rightarrow> bool" where
  "truthy VNone = False"
| "truthy (VBool b) = b"
| "truthy (VInt i) = (i \<noteq> 0)"
| "truthy (VStr s) = (s \<noteq> [])"
| "truthy (VList xs) = (xs \<noteq> [])"
| "truthy (VDict d) = (d \<noteq> [])"

text \<open>\<open>list(v)\<close>: the items of a list, the characters of a string, the keys of a dictionary.\<close>

fun py_list :: "pyval \<Rightarrow> error + pyval list" where
  "py_list (VList xs) = Inr xs"
| "py_list (VStr s) = Inr (map (\<lambda>c. VStr [c]) s)"
| "py_list (VDict d) = Inr (map (\<lambda>(k, v). VStr k) d)"
| "py_list _ = Inl TypeError"

record 'tok lm_task_call =
  arg_dataset_uri :: pyval
  arg_tokenizer :: 'tok
  arg_batch_size :: int
  arg_max_seq_len :: int
  arg_eos_tok_id :: pyval

record 'dl evaluator =
  label :: pyval
  dataloader :: 'dl
  metric_names :: "pyval list"

fun get_evaluators_loop ::
  "('tok lm_task_call \<Rightarrow> error + 'dl) \<Rightarrow> ('tok \<Rightarrow> pyval) \<Rightarrow> fragment list \<Rightarrow> 'tok \<Rightarrow> int \<Rightarrow> int \<Rightarrow>
   'dl evaluator list \<Rightarrow> (error + 'dl evaluator list) \<times> 'tok lm_task_call list" where
  "get_evaluators_loop get_lm_task_dataloader eos_token_id [] tokenizer batch_size seqlen evals =
     (Inr evals, [])"
| "get_evaluators_loop get_lm_task_dataloader eos_token_id (icl_task # rest) tokenizer batch_size
     seqlen evals =
     (let dataset_uri = dict_get icl_task ''dataset_uri'' VNone;
          name = dict_get icl_task ''name'' VNone;
          metric_names0 = dict_get icl_task ''metric_names'' VNone
      in if \<not> (truthy dataset_uri \<and> truthy name \<and> truthy metric_names0)
         then (Inl AssertionError, [])
         else
           let c = \<lparr>arg_dataset_uri = dataset_uri, arg_tokenizer = tokenizer,
                    arg_batch_size = max 4 batch_size, arg_max_seq_len = seqlen,
                    arg_eos_tok_id = eos_token_id tokenizer\<rparr>
           in (case get_lm_task_dataloader c of
                 Inl e \<Rightarrow> (Inl e, [c])
               | Inr dl \<Rightarrow>
                   (case py_list metric_names0 of
                      Inl e \<Rightarrow> (Inl e, [c])
                    | Inr names \<Rightarrow>
                        (case get_evaluators_loop get_lm_task_dataloader eos_token_id rest
                                tokenizer batch_size seqlen
                                (evals @ [\<lparr>label = name, dataloader = dl, metric_names = names\<rparr>]) of
                           (r, calls) \<Rightarrow> (r, c # calls)))))"

definition get_evaluators ::
  "('tok lm_task_call \<Rightarrow> error + 'dl) \<Rightarrow> ('tok \<Rightarrow> pyval) \<Rightarrow> fragment list \<Rightarrow> 'tok \<Rightarrow> int \<Rightarrow> int \<Rightarrow>
   (error + 'dl evaluator list) \<times> 'tok lm_task_call list" where
  "get_evaluators get_lm_task_dataloader eos_token_id cfg tokenizer batch_size seqlen =
     get_evaluators_loop get_lm_task_dataloader eos_token_id cfg tokenizer batch_size seqlen []"


section \<open>Notions used to state the properties\<close>

text \<open>
  The microbatch settings on which the partition, once past the divisibility check,
  returns a triple: the sentinel, or an integer whose division goes through (after the
  reduction to the device batch size, where that applies).
\<close>

definition accepted_microbatch :: "int \<Rightarrow> pyval \<Rightarrow> bool" where
  "accepted_microbatch device_batch_size v =
     (v = VStr ''auto'' \<or>
      (case int_of v of
         None \<Rightarrow> False
       | Some m \<Rightarrow> if m > device_batch_size then device_batch_size \<noteq> 0 else m \<noteq> 0))"

text \<open>A run hands on foreign exceptions: a call it made that raised is its own outcome.\<close>

definition propagates :: "('o call \<Rightarrow> error + 'o) \<Rightarrow> ('o, 'a) run \<Rightarrow> bool" where
  "propagates ext r = (\<forall>c \<in> set (snd r). \<forall>e. ext c = Inl e \<longrightarrow> fst r = Inl e)"

text \<open>The call \<open>get_evaluators\<close> makes to the data-source constructor for one task.\<close>

definition lm_call :: "('tok \<Rightarrow> pyval) \<Rightarrow> 'tok \<Rightarrow> int \<Rightarrow> int \<Rightarrow> fragment \<Rightarrow> 'tok lm_task_call" where
  "lm_call eos_token_id tok eval_batch_size seqlen icl_task =
     \<lparr>arg_dataset_uri = dict_get icl_task ''dataset_uri'' VNone, arg_tokenizer = tok,
      arg_batch_size = max 4 eval_batch_size, arg_max_seq_len = seqlen,
      arg_eos_tok_id = eos_token_id tok\<rparr>"

text \<open>
  A valid task spec has a non-empty string under \<open>dataset_uri\<close> and under \<open>name\<close> and
  a non-empty list under \<open>metric_names\<close>. A spec lacks a field when one of the three keys
  is absent, and has an empty field when one is present with an empty string or list.
\<close>

definition nonempty_str :: "pyval option \<Rightarrow> bool" where
  "nonempty_str v = (case v of Some (VStr s) \<Rightarrow> s \<noteq> [] | _ \<Rightarrow> False)"

definition nonempty_list :: "pyval option \<Rightarrow> bool" where
  "nonempty_list v = (case v of Some (VList xs) \<Rightarrow> xs \<noteq> [] | _ \<Rightarrow> False)"

definition valid_task :: "fragment \<Rightarrow> bool" where
  "valid_task t =
     (nonempty_str (map_of t ''dataset_uri'') \<and> nonempty_str (map_of t ''name'') \<and>
      nonempty_list (map_of t ''metric_names''))"

definition lacks_field :: "fragment \<Rightarrow> bool" where
  "lacks_field t =
     (map_of t ''dataset_uri'' = None \<or> map_of t ''name'' = None \<or>
      map_of t ''metric_names'' = None)"

definition has_empty_field :: "fragment \<Rightarrow> bool" where
  "has_empty_field t =
     (map_of t ''dataset_uri'' = Some (VStr []) \<or> map_of t ''name'' = Some (VStr []) \<or>
      map_of t ''metric_names'' = Some (VList []))"

text \<open>An evaluator built from a task: label, metric names in order, and the handle returned.\<close>

definition built_from ::
  "('tok lm_task_call \<Rightarrow> error + 'dl) \<Rightarrow> (fragment \<Rightarrow> 'tok lm_task_call) \<Rightarrow> fragment \<Rightarrow>
   'dl evaluator \<Rightarrow> bool" where
  "built_from get_lm_task_dataloader call_of t ev =
     (map_of t ''name'' = Some (label ev) \<and>
      map_of t ''metric_names'' = Some (VList (metric_names ev)) \<and>
      get_lm_task_dataloader (call_of t) = Inr (dataloader ev))"

section \<open>Properties of the partition\<close>

text \<open>The two outcomes of the divisibility check, for a world size other than zero.\<close>

lemma calc_not_divisible:
  "w \<noteq> 0 \<Longrightarrow> g mod w \<noteq> 0 \<Longrightarrow>
   calculate_batch_size_info w g m = (Inl (ValueError (not_divisible_msg g w)), [])"
  by (simp add: calculate_batch_size_info_def py_mod_def)

lemma calc_divisible:
  "w \<noteq> 0 \<Longrightarrow> g mod w = 0 \<Longrightarrow>
   calculate_batch_size_info w g m =
     (if m = VStr ''auto'' then (Inr (g div w, m, VStr ''auto''), [])
      else case int_of m of
        None \<Rightarrow> (Inl (ValueError (cannot_parse_msg m)), [])
      | Some k \<Rightarrow>
          if k > g div w then
            (if g div w = 0 then (Inl ZeroDivisionError, [clamp_warning m (g div w)])
             else (Inr (g div w, VInt (g div w), VInt 1), [clamp_warning m (g div w)]))
          else if k = 0 then (Inl ZeroDivisionError, [])
          else (Inr (g div w, m, VInt ((g div w) div k)), []))"
  by (simp add: calculate_batch_size_info_def py_mod_def py_floordiv_def Let_def split: option.splits)

text \<open>
  Claim C1. With a world size other than zero: when the global batch size is not a
  multiple of it, the partition raises the divisibility \<open>ValueError\<close>, whatever the
  microbatch setting, and prints nothing. When it is a multiple, the divisibility error
  never occurs, every triple returned has a device batch size whose product with the
  world size is the global batch size, and a triple is returned exactly for the accepted
  microbatch settings.
\<close>

theorem partition_divisibility:
  assumes "w \<noteq> 0"
  shows "(g mod w \<noteq> 0 \<longrightarrow>
            calculate_batch_size_info w g m = (Inl (ValueError (not_divisible_msg g w)), [])) \<and>
         (g mod w = 0 \<longrightarrow>
            fst (calculate_batch_size_info w g m) \<noteq> Inl (ValueError (not_divisible_msg g w)) \<and>
            (\<forall>b. fst (calculate_batch_size_info w g m) = Inr b \<longrightarrow> fst b * w = g) \<and>
            ((\<exists>b. fst (calculate_batch_size_info w g m) = Inr b) \<longleftrightarrow>
               accepted_microbatch (g div w) m))"
proof (intro conjI impI)
  assume "g mod w \<noteq> 0"
  with assms show "calculate_batch_size_info w g m = (Inl (ValueError (not_divisible_msg g w)), [])"
    by (rule calc_not_divisible)
next
  assume d: "g mod w = 0"
  note eq = calc_divisible [OF assms d, of m]
  show "fst (calculate_batch_size_info w g m) \<noteq> Inl (ValueError (not_divisible_msg g w))"
    unfolding eq by (simp add: not_divisible_msg_def cannot_parse_msg_def split: option.splits)
  from d have "g div w * w = g" by (simp add: mod_0_imp_dvd)
  then show "\<forall>b. fst (calculate_batch_size_info w g m) = Inr b \<longrightarrow> fst b * w = g"
    unfolding eq by (auto split: option.splits if_splits)
  show "(\<exists>b. fst (calculate_batch_size_info w g m) = Inr b) \<longleftrightarrow> accepted_microbatch (g div w) m"
    unfolding eq by (auto simp: accepted_microbatch_def split: option.splits if_splits)
qed

theorem partition_divisibility_witness:
  "calculate_batch_size_info 8 1023 (VInt 64) = (Inl (ValueError (not_divisible_msg 1023 8)), []) \<and>
   fst (calculate_batch_size_info 8 1024 (VInt 64)) \<noteq> Inl (ValueError (not_divisible_msg 1024 8)) \<and>
   accepted_microbatch (1024 div 8) (VInt 64) \<and>
   (\<exists>b. fst (calculate_batch_size_info 8 1024 (VInt 64)) = Inr b \<and> fst b * 8 = 1024)"
proof -
  have w: "(8::int) \<noteq> 0" by simp
  have a: "accepted_microbatch (1024 div 8) (VInt 64)" by (simp add: accepted_microbatch_def)
  from partition_divisibility [OF w, of 1023 "VInt 64"]
    partition_divisibility [OF w, of 1024 "VInt 64"] a
  show ?thesis by auto
qed

text \<open>Floor division by a positive number: the quotient's bounds.\<close>

lemma floor_bounds:
  fixes a k :: int
  assumes "0 < k"
  shows "a div k * k \<le> a \<and> a < (a div k + 1) * k"
proof -
  define q where "q = a div k * k"
  have "a = q + a mod k" by (simp add: q_def)
  moreover have "0 \<le> a mod k" and "a mod k < k" using assms by simp_all
  moreover have "(a div k + 1) * k = q + k" by (simp add: q_def distrib_right)
  ultimately show ?thesis unfolding q_def [symmetric] by linarith
qed

text \<open>
  Claim C2 fails as stated: 48 is positive, at most the device batch size 128 and does not
  divide it, and the partition returns the factor 2.
\<close>

theorem partition_floor_counterexample:
  "(0::int) < 48 \<and> (48::int) \<le> 1024 div 8 \<and> ((1024::int) div 8) mod 48 \<noteq> 0 \<and>
   calculate_batch_size_info 8 1024 (VInt 48) = (Inr (128, VInt 48, VInt 2), [])"
  by (simp add: calculate_batch_size_info_def py_mod_def py_floordiv_def)

text \<open>
  Claim C2, as the code has it. A positive integer microbatch size that is at most the
  device batch size is never rejected: the partition returns it unchanged, with the
  gradient-accumulation factor \<open>device_batch_size // device_microbatch_size\<close>, the
  quotient rounded down, and prints nothing.
\<close>

theorem partition_floor:
  assumes "w \<noteq> 0" and "g mod w = 0" and "0 < k" and "k \<le> g div w"
  shows "calculate_batch_size_info w g (VInt k) =
           (Inr (g div w, VInt k, VInt ((g div w) div k)), []) \<and>
         (g div w) div k * k \<le> g div w \<and> g div w < ((g div w) div k + 1) * k"
proof -
  have "calculate_batch_size_info w g (VInt k) =
          (Inr (g div w, VInt k, VInt ((g div w) div k)), [])"
    using assms by (simp add: calc_divisible)
  moreover have "(g div w) div k * k \<le> g div w \<and> g div w < ((g div w) div k + 1) * k"
    using \<open>0 < k\<close> by (rule floor_bounds)
  ultimately show ?thesis by blast
qed

theorem partition_floor_witness:
  "calculate_batch_size_info 8 1024 (VInt 48) = (Inr (1024 div 8, VInt 48, VInt ((1024 div 8) div 48)), []) \<and>
   ((1024::int) div 8) div 48 * 48 \<le> 1024 div 8 \<and> (1024::int) div 8 < ((1024 div 8) div 48 + 1) * 48"
  using partition_floor [of 8 1024 48] by simp

text \<open>
  Claim C3 fails as stated: the negative microbatch size \<open>-5\<close> yields a triple, and
  zero ends in a \<open>ZeroDivisionError\<close>.
\<close>

theorem partition_unparsable_counterexample:
  "VInt (- 5) \<noteq> VStr ''auto'' \<and> \<not> (0::int) < - 5 \<and>
   calculate_batch_size_info 8 1024 (VInt (- 5)) = (Inr (128, VInt (- 5), VInt (- 26)), []) \<and>
   calculate_batch_size_info 8 1024 (VInt 0) = (Inl ZeroDivisionError, [])"
  by (simp add: calculate_batch_size_info_def py_mod_def py_floordiv_def)

text \<open>
  Claim C3, as the code has it. With the global batch size a multiple of the world size,
  the unparsable \<open>ValueError\<close> is raised exactly for the settings that are neither the
  string \<open>auto\<close> nor an integer; no integer, zero and negatives included, is rejected
  as unparsable.
\<close>

theorem partition_unparsable:
  assumes "w \<noteq> 0" and "g mod w = 0"
  shows "calculate_batch_size_info w g m = (Inl (ValueError (cannot_parse_msg m)), []) \<longleftrightarrow>
           m \<noteq> VStr ''auto'' \<and> int_of m = None"
  unfolding calc_divisible [OF assms]
  by (auto split: option.splits)

theorem partition_unparsable_witness:
  "calculate_batch_size_info 8 1024 (VStr ''big'') = (Inl (ValueError (cannot_parse_msg (VStr ''big''))), []) \<and>
   VStr ''big'' \<noteq> VStr ''auto'' \<and> int_of (VStr ''big'') = None \<and>
   calculate_batch_size_info 8 1024 VNone = (Inl (ValueError (cannot_parse_msg VNone)), [])"
  using partition_unparsable [of 8 1024 "VStr ''big''"] partition_unparsable [of 8 1024 VNone]
  by simp

text \<open>
  Claim C4 fails as stated: a global batch size of 0 is a multiple of 8, the microbatch
  size 4 exceeds the device batch size 0, and after the warning the division by the
  reduced size raises.
\<close>

theorem partition_clamp_counterexample:
  "(0::int) mod 8 = 0 \<and> (4::int) > 0 div 8 \<and>
   calculate_batch_size_info 8 0 (VInt 4) = (Inl ZeroDivisionError, [clamp_warning (VInt 4) 0])"
  by (simp add: calculate_batch_size_info_def py_mod_def py_floordiv_def)

text \<open>
  Claim C4, as the code has it. With a positive device batch size: an integer microbatch
  size above it is reduced to the device batch size, with one warning line and the factor
  1; one that divides it is kept, with the exact quotient as factor and nothing printed.
\<close>

theorem partition_clamp:
  assumes "w \<noteq> 0" and "g mod w = 0" and "0 < g div w"
  shows "(k > g div w \<longrightarrow>
            calculate_batch_size_info w g (VInt k) =
              (Inr (g div w, VInt (g div w), VInt 1), [clamp_warning (VInt k) (g div w)])) \<and>
         (k dvd g div w \<longrightarrow>
            calculate_batch_size_info w g (VInt k) =
              (Inr (g div w, VInt k, VInt ((g div w) div k)), []) \<and>
            (g div w) div k * k = g div w)"
proof (intro conjI impI)
  assume "k > g div w"
  with assms show "calculate_batch_size_info w g (VInt k) =
      (Inr (g div w, VInt (g div w), VInt 1), [clamp_warning (VInt k) (g div w)])"
    by (simp add: calc_divisible)
next
  assume dv: "k dvd g div w"
  then have "k \<le> g div w" using \<open>0 < g div w\<close> by (rule zdvd_imp_le)
  moreover from dv \<open>0 < g div w\<close> have "k \<noteq> 0" by auto
  ultimately show "calculate_batch_size_info w g (VInt k) =
      (Inr (g div w, VInt k, VInt ((g div w) div k)), [])"
    using assms by (simp add: calc_divisible)
  from dv show "(g div w) div k * k = g div w" by simp
qed

theorem partition_clamp_witness:
  "calculate_batch_size_info 8 1024 (VInt 256) =
     (Inr (128, VInt 128, VInt 1), [clamp_warning (VInt 256) 128]) \<and>
   calculate_batch_size_info 8 1024 (VInt 64) = (Inr (128, VInt 64, VInt 2), []) \<and>
   (2::int) * 64 = 128"
  using partition_clamp [of 8 1024 256] partition_clamp [of 8 1024 64]
  by simp

text \<open>
  Claim C5. With the global batch size a multiple of the world size, the sentinel
  \<open>auto\<close> comes back unchanged as the microbatch size, and the gradient-accumulation
  factor is \<open>auto\<close> as well.
\<close>

theorem partition_auto:
  assumes "w \<noteq> 0" and "g mod w = 0"
  shows "calculate_batch_size_info w g (VStr ''auto'') =
           (Inr (g div w, VStr ''auto'', VStr ''auto''), [])"
  using assms by (simp add: calc_divisible)

theorem partition_auto_witness:
  "calculate_batch_size_info 8 1024 (VStr ''auto'') = (Inr (128, VStr ''auto'', VStr ''auto''), [])"
  using partition_auto [of 8 1024] by simp

section \<open>Properties of the batch-size update\<close>

text \<open>
  Claim C9. Take a configuration with an integer global batch size on which the partition
  returns. Then the update returns a configuration, in which the training microbatch size
  is the resolved one (after any reduction) and \<open>device_eval_batch_size\<close> is: the
  value it had, when the key was there; otherwise 1 when the resolved training microbatch
  size is \<open>auto\<close>, and the resolved training microbatch size when it is not.
\<close>

theorem update_eval_batch_size:
  assumes "cfg ''global_train_batch_size'' = Some (VInt g)"
    and "cfg ''device_train_microbatch_size'' = Some m"
    and "calculate_batch_size_info w g m = (Inr (dbs, mbs, ga), printed)"
  shows "\<exists>cfg'. update_batch_size_info w cfg = (Inr cfg', printed) \<and>
           cfg' ''device_train_microbatch_size'' = Some mbs \<and>
           cfg' ''device_eval_batch_size'' =
             (case cfg ''device_eval_batch_size'' of
                None \<Rightarrow> Some (if mbs = VStr ''auto'' then VInt 1 else mbs)
              | Some v \<Rightarrow> Some v)"
  using assms
  by (auto simp: update_batch_size_info_def getattr_def set_eval_batch_size_def
           split: option.splits)

text \<open>
  Three configurations: a microbatch size reduced from 256 to 128 and mirrored, the
  sentinel with the fallback 1, and an evaluation batch size already set.
\<close>

theorem update_eval_batch_size_witness:
  "(\<exists>cfg'. update_batch_size_info 8
       [''global_train_batch_size'' \<mapsto> VInt 1024, ''device_train_microbatch_size'' \<mapsto> VInt 256] =
       (Inr cfg', [clamp_warning (VInt 256) 128]) \<and>
     cfg' ''device_train_microbatch_size'' = Some (VInt 128) \<and>
     cfg' ''device_eval_batch_size'' = Some (VInt 128)) \<and>
   (\<exists>cfg'. update_batch_size_info 8
       [''global_train_batch_size'' \<mapsto> VInt 1024, ''device_train_microbatch_size'' \<mapsto> VStr ''auto''] =
       (Inr cfg', []) \<and>
     cfg' ''device_train_microbatch_size'' = Some (VStr ''auto'') \<and>
     cfg' ''device_eval_batch_size'' = Some (VInt 1)) \<and>
   (\<exists>cfg'. update_batch_size_info 8
       [''global_train_batch_size'' \<mapsto> VInt 1024, ''device_train_microbatch_size'' \<mapsto> VInt 64,
        ''device_eval_batch_size'' \<mapsto> VInt 16] =
       (Inr cfg', []) \<and>
     cfg' ''device_train_microbatch_size'' = Some (VInt 64) \<and>
     cfg' ''device_eval_batch_size'' = Some (VInt 16))"
  using
    update_eval_batch_size [of "[''global_train_batch_size'' \<mapsto> VInt 1024,
        ''device_train_microbatch_size'' \<mapsto> VInt 256]"
      1024 "VInt 256" 8 128 "VInt 128" "VInt 1" "[clamp_warning (VInt 256) 128]"]
    update_eval_batch_size [of "[''global_train_batch_size'' \<mapsto> VInt 1024,
        ''device_train_microbatch_size'' \<mapsto> VStr ''auto'']"
      1024 "VStr ''auto''" 8 128 "VStr ''auto''" "VStr ''auto''" "[]"]
    update_eval_batch_size [of "[''global_train_batch_size'' \<mapsto> VInt 1024,
        ''device_train_microbatch_size'' \<mapsto> VInt 64, ''device_eval_batch_size'' \<mapsto> VInt 16]"
      1024 "VInt 64" 8 128 "VInt 64" "VInt 2" "[]"]
  by (simp add: calculate_batch_size_info_def py_mod_def py_floordiv_def)

section \<open>Properties of the component builders\<close>

text \<open>Handing on foreign exceptions is preserved by the combinators the builders use.\<close>

lemma propagates_invoke: "propagates ext (invoke ext c)"
  by (simp add: propagates_def invoke_def)

lemma propagates_raise_err: "propagates ext (raise_err e)"
  by (simp add: propagates_def raise_err_def)

lemma propagates_lift: "propagates ext (lift r)"
  by (simp add: propagates_def lift_def)

lemma propagates_and_then:
  assumes "propagates ext m" and "\<And>a. propagates ext (f a)"
  shows "propagates ext (and_then m f)"
proof (cases m)
  case (Pair r calls)
  show ?thesis
  proof (cases r)
    case (Inl e)
    with Pair assms(1) show ?thesis by (simp add: and_then_def propagates_def)
  next
    case (Inr a)
    obtain r' calls' where fa: "f a = (r', calls')" by (cases "f a")
    have "\<forall>c\<in>set calls. \<forall>e. ext c \<noteq> Inl e"
      using assms(1) Pair Inr by (auto simp: propagates_def)
    moreover have "\<forall>c\<in>set calls'. \<forall>e. ext c = Inl e \<longrightarrow> r' = Inl e"
      using assms(2) [of a] fa by (auto simp: propagates_def)
    ultimately show ?thesis
      using Pair Inr fa by (auto simp: and_then_def propagates_def)
  qed
qed

lemmas propagates_intros =
  propagates_and_then propagates_invoke propagates_raise_err propagates_lift

lemma propagates_build_logger: "propagates ext (build_logger ext name kwargs)"
  by (simp add: build_logger_def propagates_intros)

lemma propagates_build_callback: "propagates ext (build_callback ext name kwargs)"
  by (simp add: build_callback_def propagates_intros)

lemma propagates_build_algorithm: "propagates ext (build_algorithm ext name kwargs)"
  by (simp add: build_algorithm_def propagates_intros)

lemma propagates_build_optimizer: "propagates ext (build_optimizer ext cfg model)"
  unfolding build_optimizer_def
  by (auto intro!: propagates_intros)

lemma propagates_build_scheduler: "propagates ext (build_scheduler ext cfg)"
  unfolding build_scheduler_def
  by (auto intro!: propagates_intros)

lemma propagates_main_tokenizer: "propagates ext (main_tokenizer reg ext cfg)"
  unfolding main_tokenizer_def
  by (auto intro!: propagates_intros split: pyval.splits)

lemma build_composer_model_raised:
  assumes "attr cfg ''name'' = Inr name" and "reg name = Some callee"
    and "ext (callee, [Val (VDict cfg)], []) = Inl e"
  shows "build_composer_model reg ext cfg =
           (Inl (ValueError [Lit ''Not sure how to build model with name='', Fmt name]),
            [(callee, [Val (VDict cfg)], [])])"
  using assms
  by (simp add: build_composer_model_def except_all_def and_then_def lift_def subscript_def
        invoke_def raise_err_def)

lemma build_dataloader_raised:
  assumes "ext (''build_text_dataloader'', [Val (VDict cfg), Val device_batch_size], []) = Inl e"
  shows "build_dataloader ext cfg device_batch_size =
           (Inl (ValueError [Lit ''Not sure how to build dataloader with config: '', Fmt (VDict cfg)]),
            [(''build_text_dataloader'', [Val (VDict cfg), Val device_batch_size], [])])"
  using assms
  by (simp add: build_dataloader_def except_all_def invoke_def raise_err_def)


text \<open>
  Claim C6, as the code has it. The logger, callback, algorithm, optimizer and scheduler
  builders and the tokenizer lookup hand on, unchanged, the exception of any foreign call
  they make. \<open>build_composer_model\<close> and \<open>build_dataloader\<close> do not: whatever the
  foreign builder raises, their outcome is the handler's \<open>ValueError\<close>.
\<close>

theorem builders_propagation:
  "propagates ext (build_logger ext name kwargs) \<and>
   propagates ext (build_callback ext name kwargs) \<and>
   propagates ext (build_algorithm ext name kwargs) \<and>
   propagates ext (build_optimizer ext cfg model) \<and>
   propagates ext (build_scheduler ext cfg) \<and>
   propagates ext (main_tokenizer reg ext cfg) \<and>
   (attr cfg ''name'' = Inr n \<and> reg n = Some callee \<and>
    ext (callee, [Val (VDict cfg)], []) = Inl e \<longrightarrow>
      build_composer_model reg ext cfg =
        (Inl (ValueError [Lit ''Not sure how to build model with name='', Fmt n]),
         [(callee, [Val (VDict cfg)], [])])) \<and>
   (ext (''build_text_dataloader'', [Val (VDict cfg), Val device_batch_size], []) = Inl e \<longrightarrow>
      build_dataloader ext cfg device_batch_size =
        (Inl (ValueError [Lit ''Not sure how to build dataloader with config: '', Fmt (VDict cfg)]),
         [(''build_text_dataloader'', [Val (VDict cfg), Val device_batch_size], [])]))"
  by (intro conjI impI propagates_build_logger propagates_build_callback
        propagates_build_algorithm propagates_build_optimizer propagates_build_scheduler
        propagates_main_tokenizer)
     (auto intro: build_composer_model_raised build_dataloader_raised)

theorem builders_propagation_witness:
  "fst (build_logger (\<lambda>c. Inl (Raised ''api key missing'') :: error + unit) ''wandb'' []) =
     Inl (Raised ''api key missing'') \<and>
   fst (build_optimizer (\<lambda>c. if fst c = ''parameters'' then Inr () else Inl (Raised ''lr is negative''))
          [(''name'', VStr ''decoupled_adamw''), (''lr'', VInt (- 1)), (''betas'', VNone),
           (''eps'', VNone), (''weight_decay'', VInt 0)] ()) =
     Inl (Raised ''lr is negative'') \<and>
   build_composer_model [VStr ''gpt'' \<mapsto> ''GPT''] (\<lambda>c. Inl (Raised ''d_model missing'') :: error + unit)
       [(''name'', VStr ''gpt'')] =
     (Inl (ValueError [Lit ''Not sure how to build model with name='', Fmt (VStr ''gpt'')]),
      [(''GPT'', [Val (VDict [(''name'', VStr ''gpt'')])], [])])"
  using
    builders_propagation [of "\<lambda>c. Inl (Raised ''api key missing'') :: error + unit" "''wandb''" "[]"
      "[]" "()" "Map.empty" VNone "[]" "Raised []" VNone]
    builders_propagation [of "\<lambda>c. if fst c = ''parameters'' then Inr () else Inl (Raised ''lr is negative'')"
      "[]" "[]"
      "[(''name'', VStr ''decoupled_adamw''), (''lr'', VInt (- 1)), (''betas'', VNone),
        (''eps'', VNone), (''weight_decay'', VInt 0)]" "()" "Map.empty" VNone "[]" "Raised []" VNone]
    builders_propagation [of "\<lambda>c. Inl (Raised ''d_model missing'') :: error + unit" "[]" "[]"
      "[(''name'', VStr ''gpt'')]" "()" "[VStr ''gpt'' \<mapsto> ''GPT'']" "VStr ''gpt''" "''GPT''"
      "Raised ''d_model missing''" VNone]
  by (simp add: propagates_def build_logger_def build_optimizer_def invoke_def and_then_def
        lift_def attr_def)

text \<open>
  Claim C6 fails as stated: the exception raised by the registered model builder, and the
  one raised by the data-loader builder, are replaced.
\<close>

theorem builders_propagation_counterexample:
  "build_composer_model [VStr ''gpt'' \<mapsto> ''GPT'']
       (\<lambda>c. Inl (ValueError [Lit ''d_model is required'']) :: error + unit)
       [(''name'', VStr ''gpt'')] =
     (Inl (ValueError [Lit ''Not sure how to build model with name='', Fmt (VStr ''gpt'')]),
      [(''GPT'', [Val (VDict [(''name'', VStr ''gpt'')])], [])]) \<and>
   \<not> propagates (\<lambda>c. Inl (ValueError [Lit ''d_model is required'']) :: error + unit)
       (build_composer_model [VStr ''gpt'' \<mapsto> ''GPT'']
          (\<lambda>c. Inl (ValueError [Lit ''d_model is required''])) [(''name'', VStr ''gpt'')]) \<and>
   build_dataloader (\<lambda>c. Inl (ValueError [Lit ''remote is required'']) :: error + unit) []
       (VInt 8) =
     (Inl (ValueError [Lit ''Not sure how to build dataloader with config: '', Fmt (VDict [])]),
      [(''build_text_dataloader'', [Val (VDict []), Val (VInt 8)], [])]) \<and>
   \<not> propagates (\<lambda>c. Inl (ValueError [Lit ''remote is required'']) :: error + unit)
       (build_dataloader (\<lambda>c. Inl (ValueError [Lit ''remote is required''])) [] (VInt 8))"
  by (simp add: propagates_def build_composer_model_def build_dataloader_def except_all_def
        and_then_def lift_def attr_def subscript_def invoke_def raise_err_def)

text \<open>
  Claim C7, as the code has it. For the logger, callback, algorithm, optimizer, scheduler
  and model categories, a name with no builder gives a \<open>ValueError\<close> whose message
  holds the category and the name, and no foreign call is made.
\<close>

theorem unknown_component:
  "(name \<noteq> ''wandb'' \<longrightarrow>
      build_logger ext name kwargs =
        (Inl (ValueError [Lit ''Not sure how to build logger: '', Fmt (VStr name)]), [])) \<and>
   (name \<notin> set [''lr_monitor'', ''memory_monitor'', ''speed_monitor'', ''optimizer_monitor''] \<longrightarrow>
      build_callback ext name kwargs =
        (Inl (ValueError [Lit ''Not sure how to build callback: '', Fmt (VStr name)]), [])) \<and>
   (name \<noteq> ''gradient_clipping'' \<longrightarrow>
      build_algorithm ext name kwargs =
        (Inl (ValueError [Lit ''Not sure how to build algorithm: '', Fmt (VStr name)]), [])) \<and>
   (attr cfg ''name'' = Inr n \<and> n \<noteq> VStr ''decoupled_adamw'' \<longrightarrow>
      build_optimizer ext cfg model =
        (Inl (ValueError [Lit ''Not sure how to build optimizer: '', Fmt n]), [])) \<and>
   (attr cfg ''name'' = Inr n \<and>
    n \<notin> set [VStr ''constant_with_warmup'', VStr ''cosine_with_warmup''] \<longrightarrow>
      build_scheduler ext cfg =
        (Inl (ValueError [Lit ''Not sure how to build scheduler: '', Fmt n]), [])) \<and>
   (attr cfg ''name'' = Inr n \<and> reg n = None \<longrightarrow>
      build_composer_model reg ext cfg =
        (Inl (ValueError [Lit ''Not sure how to build model with name='', Fmt n]), []))"
  by (simp add: build_logger_def build_callback_def build_algorithm_def build_optimizer_def
        build_scheduler_def build_composer_model_def except_all_def and_then_def lift_def
        subscript_def raise_err_def)

theorem unknown_component_witness:
  "build_logger (\<lambda>c. Inr ()) ''nonexistent'' [] =
     (Inl (ValueError [Lit ''Not sure how to build logger: '', Fmt (VStr ''nonexistent'')]), []) \<and>
   build_callback (\<lambda>c. Inr ()) ''nonexistent'' [] =
     (Inl (ValueError [Lit ''Not sure how to build callback: '', Fmt (VStr ''nonexistent'')]), []) \<and>
   build_algorithm (\<lambda>c. Inr ()) ''nonexistent'' [] =
     (Inl (ValueError [Lit ''Not sure how to build algorithm: '', Fmt (VStr ''nonexistent'')]), []) \<and>
   build_optimizer (\<lambda>c. Inr ()) [(''name'', VStr ''nonexistent'')] () =
     (Inl (ValueError [Lit ''Not sure how to build optimizer: '', Fmt (VStr ''nonexistent'')]), []) \<and>
   build_scheduler (\<lambda>c. Inr ()) [(''name'', VStr ''nonexistent'')] =
     (Inl (ValueError [Lit ''Not sure how to build scheduler: '', Fmt (VStr ''nonexistent'')]), []) \<and>
   build_composer_model [VStr ''gpt'' \<mapsto> ''GPT''] (\<lambda>c. Inr ()) [(''name'', VStr ''nonexistent'')] =
     (Inl (ValueError [Lit ''Not sure how to build model with name='', Fmt (VStr ''nonexistent'')]), [])"
  using unknown_component [of "''nonexistent''" "\<lambda>c. Inr ()" "[]" "[(''name'', VStr ''nonexistent'')]"
      "VStr ''nonexistent''" "()" "[VStr ''gpt'' \<mapsto> ''GPT'']"]
  by (simp add: attr_def)

text \<open>
  Claim C7 fails as stated on the tokenizer category: a type that is not in the registry
  gives the \<open>KeyError\<close> of the subscript, which carries the name alone.
\<close>

theorem unknown_component_counterexample:
  "[VStr ''hftokenizer'' \<mapsto> ''HFTokenizer''] (VStr ''nonexistent'') = None \<and>
   main_tokenizer [VStr ''hftokenizer'' \<mapsto> ''HFTokenizer''] (\<lambda>c. Inr ())
       [(''type'', VStr ''nonexistent''), (''args'', VDict [])] =
     (Inl (KeyError (VStr ''nonexistent'')), [])"
  by (simp add: main_tokenizer_def and_then_def lift_def attr_def subscript_def)


section \<open>Properties of the evaluator assembly\<close>

text \<open>
  The loop on one task: a task with a falsy field stops it at the assertion, before the
  data source is asked for; a valid task whose data source is returned adds one evaluator
  and one call.
\<close>

lemma loop_rejects:
  assumes "\<not> (truthy (dict_get t ''dataset_uri'' VNone) \<and> truthy (dict_get t ''name'' VNone) \<and>
              truthy (dict_get t ''metric_names'' VNone))"
  shows "get_evaluators_loop loader eos (t # post) tok bs seqlen evals = (Inl AssertionError, [])"
  using assms by (simp add: Let_def)

lemma valid_task_fields:
  assumes "valid_task t"
  obtains u n ms where "map_of t ''dataset_uri'' = Some (VStr u)" and "u \<noteq> []"
    and "map_of t ''name'' = Some (VStr n)" and "n \<noteq> []"
    and "map_of t ''metric_names'' = Some (VList ms)" and "ms \<noteq> []"
  using assms
  by (auto simp: valid_task_def nonempty_str_def nonempty_list_def
           split: option.splits pyval.splits)

lemma loop_accepts_one:
  assumes "valid_task t" and "loader (lm_call eos tok bs seqlen t) = Inr dl"
  shows "\<exists>ev. built_from loader (lm_call eos tok bs seqlen) t ev \<and>
           get_evaluators_loop loader eos (t # rest) tok bs seqlen evals =
             (case get_evaluators_loop loader eos rest tok bs seqlen (evals @ [ev]) of
                (r, calls) \<Rightarrow> (r, lm_call eos tok bs seqlen t # calls))"
proof -
  from assms(1) obtain u n ms where
    f: "map_of t ''dataset_uri'' = Some (VStr u)" "u \<noteq> []"
       "map_of t ''name'' = Some (VStr n)" "n \<noteq> []"
       "map_of t ''metric_names'' = Some (VList ms)" "ms \<noteq> []"
    by (rule valid_task_fields)
  let ?ev = "\<lparr>label = VStr n, dataloader = dl, metric_names = ms\<rparr>"
  have "built_from loader (lm_call eos tok bs seqlen) t ?ev"
    using f assms(2) by (simp add: built_from_def)
  moreover have "get_evaluators_loop loader eos (t # rest) tok bs seqlen evals =
      (case get_evaluators_loop loader eos rest tok bs seqlen (evals @ [?ev]) of
         (r, calls) \<Rightarrow> (r, lm_call eos tok bs seqlen t # calls))"
    using f assms(2) by (simp add: dict_get_def lm_call_def)
  ultimately show ?thesis by blast
qed

lemma loop_accepts:
  assumes "\<forall>t\<in>set pre. valid_task t \<and> \<not> isl (loader (lm_call eos tok bs seqlen t))"
  shows "\<exists>evs. list_all2 (built_from loader (lm_call eos tok bs seqlen)) pre evs \<and>
           get_evaluators_loop loader eos (pre @ rest) tok bs seqlen evals =
             (case get_evaluators_loop loader eos rest tok bs seqlen (evals @ evs) of
                (r, calls) \<Rightarrow> (r, map (lm_call eos tok bs seqlen) pre @ calls))"
  using assms
proof (induction pre arbitrary: evals)
  case Nil
  show ?case by (rule exI [of _ "[]"]) simp
next
  case (Cons t pre)
  from Cons.prems have vt: "valid_task t" and "\<not> isl (loader (lm_call eos tok bs seqlen t))"
    and rest: "\<forall>t\<in>set pre. valid_task t \<and> \<not> isl (loader (lm_call eos tok bs seqlen t))"
    by simp_all
  then obtain dl where dl: "loader (lm_call eos tok bs seqlen t) = Inr dl"
    by (cases "loader (lm_call eos tok bs seqlen t)") simp_all
  from loop_accepts_one [where loader = loader and rest = "pre @ rest" and evals = evals, OF vt dl]
  obtain ev where
    ev: "built_from loader (lm_call eos tok bs seqlen) t ev"
    and step: "get_evaluators_loop loader eos (t # pre @ rest) tok bs seqlen evals =
      (case get_evaluators_loop loader eos (pre @ rest) tok bs seqlen (evals @ [ev]) of
         (r, calls) \<Rightarrow> (r, lm_call eos tok bs seqlen t # calls))"
    by blast
  from Cons.IH [OF rest, of "evals @ [ev]"] obtain evs where
    evs: "list_all2 (built_from loader (lm_call eos tok bs seqlen)) pre evs"
    and ih: "get_evaluators_loop loader eos (pre @ rest) tok bs seqlen (evals @ [ev]) =
      (case get_evaluators_loop loader eos rest tok bs seqlen ((evals @ [ev]) @ evs) of
         (r, calls) \<Rightarrow> (r, map (lm_call eos tok bs seqlen) pre @ calls))"
    by blast
  have "list_all2 (built_from loader (lm_call eos tok bs seqlen)) (t # pre) (ev # evs)"
    using ev evs by simp
  moreover have "get_evaluators_loop loader eos ((t # pre) @ rest) tok bs seqlen evals =
      (case get_evaluators_loop loader eos rest tok bs seqlen (evals @ ev # evs) of
         (r, calls) \<Rightarrow> (r, map (lm_call eos tok bs seqlen) (t # pre) @ calls))"
    using step ih by (simp split: prod.splits)
  ultimately show ?case by blast
qed

lemma assemble_stops:
  assumes pre: "\<forall>t\<in>set pre. valid_task t \<and> \<not> isl (loader (lm_call eos tok bs seqlen t))"
    and bad: "\<not> (truthy (dict_get bad ''dataset_uri'' VNone) \<and> truthy (dict_get bad ''name'' VNone) \<and>
               truthy (dict_get bad ''metric_names'' VNone))"
  shows "get_evaluators loader eos (pre @ bad # post) tok bs seqlen =
           (Inl AssertionError, map (lm_call eos tok bs seqlen) pre)"
proof -
  from loop_accepts [OF pre, of "bad # post" "[]"] obtain evs where
    "get_evaluators_loop loader eos (pre @ bad # post) tok bs seqlen [] =
       (case get_evaluators_loop loader eos (bad # post) tok bs seqlen ([] @ evs) of
          (r, calls) \<Rightarrow> (r, map (lm_call eos tok bs seqlen) pre @ calls))"
    by blast
  then show ?thesis
    unfolding get_evaluators_def loop_rejects [OF bad] by simp
qed

lemma lacks_field_falsy:
  "lacks_field t \<Longrightarrow>
   \<not> (truthy (dict_get t ''dataset_uri'' VNone) \<and> truthy (dict_get t ''name'' VNone) \<and>
      truthy (dict_get t ''metric_names'' VNone))"
  by (auto simp: lacks_field_def dict_get_def)

lemma has_empty_field_falsy:
  "has_empty_field t \<Longrightarrow>
   \<not> (truthy (dict_get t ''dataset_uri'' VNone) \<and> truthy (dict_get t ''name'' VNone) \<and>
      truthy (dict_get t ''metric_names'' VNone))"
  by (auto simp: has_empty_field_def dict_get_def)

text \<open>
  Claim C8. Let every task of \<open>cfg\<close> be valid, with a data source that is returned.
  If a task lacking \<open>dataset_uri\<close>, \<open>name\<close> or \<open>metric_names\<close> follows them, the
  assembly fails with the assertion's error, and the only data sources asked for are
  those of the tasks before it. On \<open>cfg\<close> alone the assembly returns as many
  evaluators as there are tasks, in their order, each with its task's name as label, its
  task's metric names as they are listed, and the data source returned for its task; and
  every data source is asked for with the batch size \<open>max(4, eval_batch_size)\<close>.
\<close>

theorem assemble_evaluators:
  assumes "\<forall>t\<in>set cfg. valid_task t \<and> \<not> isl (loader (lm_call eos tok bs seqlen t))"
  shows "(lacks_field bad \<longrightarrow>
            get_evaluators loader eos (cfg @ bad # post) tok bs seqlen =
              (Inl AssertionError, map (lm_call eos tok bs seqlen) cfg)) \<and>
         (\<exists>evs. get_evaluators loader eos cfg tok bs seqlen =
                  (Inr evs, map (lm_call eos tok bs seqlen) cfg) \<and>
                length evs = length cfg \<and>
                list_all2 (built_from loader (lm_call eos tok bs seqlen)) cfg evs) \<and>
         (\<forall>c\<in>set (map (lm_call eos tok bs seqlen) cfg). arg_batch_size c = max 4 bs)"
proof (intro conjI impI)
  assume "lacks_field bad"
  then show "get_evaluators loader eos (cfg @ bad # post) tok bs seqlen =
      (Inl AssertionError, map (lm_call eos tok bs seqlen) cfg)"
    by (intro assemble_stops assms lacks_field_falsy)
next
  from loop_accepts [OF assms, of "[]" "[]"] obtain evs where
    "list_all2 (built_from loader (lm_call eos tok bs seqlen)) cfg evs"
    and "get_evaluators loader eos cfg tok bs seqlen =
       (Inr evs, map (lm_call eos tok bs seqlen) cfg)"
    by (auto simp: get_evaluators_def)
  then show "\<exists>evs. get_evaluators loader eos cfg tok bs seqlen =
                  (Inr evs, map (lm_call eos tok bs seqlen) cfg) \<and>
                length evs = length cfg \<and>
                list_all2 (built_from loader (lm_call eos tok bs seqlen)) cfg evs"
    by (auto dest: list_all2_lengthD)
next
  show "\<forall>c\<in>set (map (lm_call eos tok bs seqlen) cfg). arg_batch_size c = max 4 bs"
    by (simp add: lm_call_def)
qed

text \<open>
  Claim C10. A task in which \<open>dataset_uri\<close> or \<open>name\<close> is the empty string, or
  \<open>metric_names\<close> the empty list, is rejected as a task lacking the field is: the
  assembly fails with the assertion's error, and the only data sources asked for are
  those of the valid tasks before it.
\<close>

theorem assemble_rejects_empty:
  assumes "\<forall>t\<in>set pre. valid_task t \<and> \<not> isl (loader (lm_call eos tok bs seqlen t))"
    and "has_empty_field bad"
  shows "get_evaluators loader eos (pre @ bad # post) tok bs seqlen =
           (Inl AssertionError, map (lm_call eos tok bs seqlen) pre)"
  using assms by (intro assemble_stops has_empty_field_falsy)


theorem assemble_evaluators_witness:
  "get_evaluators (\<lambda>c. Inr (arg_dataset_uri c)) (\<lambda>t. VInt 0)
     ([[(''dataset_uri'', VStr ''s3://lambada''), (''name'', VStr ''lambada''),
        (''metric_names'', VList [VStr ''InContextLearningLMAccuracy''])]] @
      [(''dataset_uri'', VStr ''s3://piqa''), (''name'', VStr ''piqa'')] # []) () 1 2048 =
     (Inl AssertionError,
      [\<lparr>arg_dataset_uri = VStr ''s3://lambada'', arg_tokenizer = (), arg_batch_size = 4,
        arg_max_seq_len = 2048, arg_eos_tok_id = VInt 0\<rparr>]) \<and>
   (\<exists>evs. get_evaluators (\<lambda>c. Inr (arg_dataset_uri c)) (\<lambda>t. VInt 0)
       [[(''dataset_uri'', VStr ''s3://lambada''), (''name'', VStr ''lambada''),
         (''metric_names'', VList [VStr ''InContextLearningLMAccuracy''])]] () 1 2048 =
       (Inr evs,
        [\<lparr>arg_dataset_uri = VStr ''s3://lambada'', arg_tokenizer = (), arg_batch_size = 4,
          arg_max_seq_len = 2048, arg_eos_tok_id = VInt 0\<rparr>]) \<and>
     length evs = 1 \<and>
     list_all2 (built_from (\<lambda>c. Inr (arg_dataset_uri c)) (lm_call (\<lambda>t. VInt 0) () 1 2048))
       [[(''dataset_uri'', VStr ''s3://lambada''), (''name'', VStr ''lambada''),
         (''metric_names'', VList [VStr ''InContextLearningLMAccuracy''])]] evs)"
proof -
  let ?t = "[(''dataset_uri'', VStr ''s3://lambada''), (''name'', VStr ''lambada''),
             (''metric_names'', VList [VStr ''InContextLearningLMAccuracy''])]"
  let ?bad = "[(''dataset_uri'', VStr ''s3://piqa''), (''name'', VStr ''piqa'')]"
  let ?loader = "\<lambda>c :: unit lm_task_call. Inr (arg_dataset_uri c) :: error + pyval"
  have h: "\<forall>t\<in>set [?t]. valid_task t \<and> \<not> isl (?loader (lm_call (\<lambda>t. VInt 0) () 1 2048 t))"
    by (simp add: valid_task_def nonempty_str_def nonempty_list_def)
  have b: "lacks_field ?bad" by (simp add: lacks_field_def)
  have c: "map (lm_call (\<lambda>t. VInt 0) () 1 2048) [?t] =
      [\<lparr>arg_dataset_uri = VStr ''s3://lambada'', arg_tokenizer = (), arg_batch_size = 4,
        arg_max_seq_len = 2048, arg_eos_tok_id = VInt 0\<rparr>]"
    by (simp add: lm_call_def dict_get_def)
  from assemble_evaluators [OF h, of ?bad "[]"] b show ?thesis
    unfolding c by simp
qed

theorem assemble_rejects_empty_witness:
  "get_evaluators (\<lambda>c. Inr (arg_dataset_uri c)) (\<lambda>t. VInt 0)
     ([[(''dataset_uri'', VStr ''s3://lambada''), (''name'', VStr ''lambada''),
        (''metric_names'', VList [VStr ''InContextLearningLMAccuracy''])]] @
      [(''dataset_uri'', VStr ''s3://piqa''), (''name'', VStr ''piqa''),
       (''metric_names'', VList [])] # []) () 1 2048 =
     (Inl AssertionError,
      [\<lparr>arg_dataset_uri = VStr ''s3://lambada'', arg_tokenizer = (), arg_batch_size = 4,
        arg_max_seq_len = 2048, arg_eos_tok_id = VInt 0\<rparr>]) \<and>
   get_evaluators (\<lambda>c. Inr (arg_dataset_uri c)) (\<lambda>t. VInt 0)
     ([] @ [(''dataset_uri'', VStr ''''), (''name'', VStr ''piqa''),
            (''metric_names'', VList [VStr ''InContextLearningLMAccuracy''])] # []) () 1 2048 =
     (Inl AssertionError, []) \<and>
   get_evaluators (\<lambda>c. Inr (arg_dataset_uri c)) (\<lambda>t. VInt 0)
     ([] @ [(''dataset_uri'', VStr ''s3://piqa''), (''name'', VStr ''''),
            (''metric_names'', VList [VStr ''InContextLearningLMAccuracy''])] # []) () 1 2048 =
     (Inl AssertionError, [])"
proof -
  let ?t = "[(''dataset_uri'', VStr ''s3://lambada''), (''name'', VStr ''lambada''),
             (''metric_names'', VList [VStr ''InContextLearningLMAccuracy''])]"
  let ?loader = "\<lambda>c :: unit lm_task_call. Inr (arg_dataset_uri c) :: error + pyval"
  have h: "\<forall>t\<in>set [?t]. valid_task t \<and> \<not> isl (?loader (lm_call (\<lambda>t. VInt 0) () 1 2048 t))"
    by (simp add: valid_task_def nonempty_str_def nonempty_list_def)
  have h0: "\<forall>t\<in>set []. valid_task t \<and> \<not> isl (?loader (lm_call (\<lambda>t. VInt 0) () 1 2048 t))"
    by simp
  have c: "map (lm_call (\<lambda>t. VInt 0) () 1 2048) [?t] =
      [\<lparr>arg_dataset_uri = VStr ''s3://lambada'', arg_tokenizer = (), arg_batch_size = 4,
        arg_max_seq_len = 2048, arg_eos_tok_id = VInt 0\<rparr>]"
    by (simp add: lm_call_def dict_get_def)
  have b1: "has_empty_field [(''dataset_uri'', VStr ''s3://piqa''), (''name'', VStr ''piqa''),
       (''metric_names'', VList [])]"
    and b2: "has_empty_field [(''dataset_uri'', VStr ''''), (''name'', VStr ''piqa''),
            (''metric_names'', VList [VStr ''InContextLearningLMAccuracy''])]"
    and b3: "has_empty_field [(''dataset_uri'', VStr ''s3://piqa''), (''name'', VStr ''''),
            (''metric_names'', VList [VStr ''InContextLearningLMAccuracy''])]"
    by (simp_all add: has_empty_field_def)
  from assemble_rejects_empty [OF h b1, of "[]"] assemble_rejects_empty [OF h0 b2, of "[]"]
    assemble_rejects_empty [OF h0 b3, of "[]"]
  show ?thesis unfolding c by simp
qed

end
